theory Spec2Isabelle
  imports Main
begin

section \<open>The \<open>create\<close> command of hub (commands/create.go)\<close>

text \<open>
  The command is one Go function, \<open>create\<close>, that talks to four collaborators:
  the \<open>git\<close> package (the working copy), the \<open>github\<close> package (host
  configuration, project values, the API client, the local remotes), \<open>ui\<close>
  (notices on standard error) and \<open>utils\<close> (\<open>utils.Check\<close>). They are
  defined outside create.go, so every collaborator is a field of an environment record
  \<open>env\<close>: what the call answers, as a function of its arguments. The function
  itself is embedded statement by statement. It returns the trace of the calls and
  notices it made, in order, and either the fatal error it stopped with or the
  values of its local variables \<open>project\<close> and \<open>webUrl\<close> at its end.
\<close>

subsection \<open>Data\<close>

text \<open>A Go \<open>error\<close> is represented by its message.\<close>

type_synonym err = string

text \<open>
  \<open>github.Host\<close>: create.go reads \<open>host.User\<close> (line 103) and
  \<open>host.Host\<close> (line 110).
\<close>

record Host =
  Host_User :: string
  Host_Host :: string

text \<open>
  Modelled from the spec: the struct \<open>github.Project\<close> is declared outside
  create.go, which reads its field \<open>Host\<close> only (lines 111, 115, 135). Section 3
  of the specification gives the attributes owner, name and host.
\<close>

record Project =
  Owner :: string
  Name :: string
  Host :: string

text \<open>
  \<open>github.Repository\<close>, the record the API returns: create.go reads
  \<open>repo.FullName\<close> and \<open>repo.Private\<close>.
\<close>

record Repository =
  FullName :: string
  Private :: bool

text \<open>
  \<open>github.Remote\<close>: create.go reads \<open>originRemote.Name\<close> and
  \<open>originRemote.PushURL\<close> and calls \<open>originRemote.Project()\<close>, whose
  answer is kept as a field.
\<close>

record Remote =
  Remote_Name :: string
  PushURL :: string
  Remote_Project :: "err + Project"

text \<open>The local repository, by its one method that create.go calls.\<close>

record GitHubRepo =
  RemoteByName :: "string \<Rightarrow> err + Remote"

text \<open>
  \<open>Args\<close>: the positional parameters (\<open>IsParamsEmpty\<close>, \<open>FirstParam\<close>)
  and the field \<open>Noop\<close>.
\<close>

record Args =
  Params :: "string list"
  Noop :: bool

text \<open>The package-level flag variables of lines 57-64.\<close>

record flags =
  flagCreatePrivate :: bool
  flagCreateBrowse :: bool
  flagCreateCopy :: bool
  flagCreateDescription :: string
  flagCreateHomepage :: string

text \<open>
  The collaborators. \<open>gh_Repository\<close> and \<open>gh_CreateRepository\<close> take the host
  the client was made for (\<open>github.NewClient(project.Host)\<close>, line 111) as their first
  argument. A call that returns \<open>(value, err)\<close> in Go answers \<open>Inl err\<close> when
  \<open>err != nil\<close> and \<open>Inr value\<close> otherwise.
\<close>

record env =
  git_Dir :: "err + string"
  git_WorkdirName :: "err + string"
  SanitizeProjectName :: "string \<Rightarrow> string"
  DefaultHost :: "err + Host"
  FormatError :: "string \<Rightarrow> err \<Rightarrow> err"
  NewProject :: "string \<Rightarrow> string \<Rightarrow> string \<Rightarrow> Project"
  SameAs :: "Project \<Rightarrow> Project \<Rightarrow> bool"
  gh_Repository :: "string \<Rightarrow> Project \<Rightarrow> err + Repository"
  gh_CreateRepository ::
    "string \<Rightarrow> Project \<Rightarrow> string \<Rightarrow> string \<Rightarrow> bool \<Rightarrow> err + Repository"
  LocalRepo :: "err + GitHubRepo"
  GitURL :: "Project \<Rightarrow> string \<Rightarrow> string \<Rightarrow> bool \<Rightarrow> string"
  WebURL :: "Project \<Rightarrow> string \<Rightarrow> string \<Rightarrow> string \<Rightarrow> string"

text \<open>
  What an invocation does besides computing: the calls that reach the working copy,
  the configuration or the network, the notices written with \<open>ui.Errorln\<close> and
  \<open>ui.Errorf\<close>, the command queued with \<open>args.Before\<close>, and the final
  \<open>args.NoForward()\<close> and \<open>printBrowseOrCopy\<close>.
\<close>

datatype event =
    Git_Dir
  | Git_WorkdirName
  | Config_DefaultHost
  | Gh_Repository string Project
  | Gh_CreateRepository string Project string string bool
  | Github_LocalRepo
  | Repo_RemoteByName string
  | Ui_Errorln string
  | Ui_Errorf string
  | Args_Before "string list"
  | Args_NoForward
  | PrintBrowseOrCopy string bool bool

text \<open>
  A run: the trace, and \<open>Inl\<close> the error of the \<open>utils.Check\<close> that stopped it or
  \<open>Inr\<close> its value.
\<close>

type_synonym 'a run = "event list \<times> (err + 'a)"

text \<open>
  Modelled from the spec: \<open>utils.Check\<close> is defined outside create.go. By section 7
  of the specification a fatal condition aborts the whole workflow immediately, so
  \<open>utils.Check(err)\<close> ends the run with \<open>err\<close> when \<open>err != nil\<close> and does nothing
  otherwise. \<open>and_then\<close> is the sequencing this gives: the statements after a
  failed check do not run.
\<close>

definition and_then :: "'a run \<Rightarrow> ('a \<Rightarrow> 'b run) \<Rightarrow> 'b run" where
  "and_then m f =
     (case m of
        (es, Inl e) \<Rightarrow> (es, Inl e)
      | (es, Inr x) \<Rightarrow> (case f x of (es', r) \<Rightarrow> (es @ es', r)))"

subsection \<open>The standard-library calls\<close>

text \<open>
  \<open>regexp.MustCompile("^[^-]").MatchString(s)\<close> (lines 89-90): the text has a first
  character and it is not \<open>-\<close>.
\<close>

definition MatchString :: "string \<Rightarrow> bool" where
  "MatchString s = (case s of [] \<Rightarrow> False | c # _ \<Rightarrow> c \<noteq> CHR ''-'')"

text \<open>\<open>strings.Contains(s, "/")\<close> (line 104).\<close>

definition Contains :: "string \<Rightarrow> bool" where
  "Contains s = (CHR ''/'' \<in> set s)"

text \<open>
  \<open>strings.SplitN(s, "/", 2)\<close> (line 105): at most two pieces, cut at the first
  \<open>/\<close>; the text itself when it has none.
\<close>

definition SplitN :: "string \<Rightarrow> string list" where
  "SplitN s =
     (if Contains s
      then [takeWhile (\<lambda>c. c \<noteq> CHR ''/'') s, drop 1 (dropWhile (\<lambda>c. c \<noteq> CHR ''/'') s)]
      else [s])"

subsection \<open>The messages create.go builds\<close>

text \<open>Line 79.\<close>

definition not_in_repository :: err where
  "not_in_repository = '''create' must be run from inside a git repository''"

text \<open>Line 91.\<close>

definition invalid_argument :: "string \<Rightarrow> err" where
  "invalid_argument a = ''invalid argument: '' @ a"

text \<open>Line 118.\<close>

definition already_public :: "string \<Rightarrow> err" where
  "already_public fullName =
     ''Repository '' @ [CHR 0x27] @ fullName @ [CHR 0x27] @ '' already exists and is public''"

text \<open>Line 121.\<close>

definition existing_detected :: string where
  "existing_detected = ''Existing repository detected''"

text \<open>
  Line 146. The format is a raw string literal, so it ends with a backslash and the
  letter n.
\<close>

definition remote_exists :: "string \<Rightarrow> string \<Rightarrow> string" where
  "remote_exists name url =
     ''A git remote named '' @ [CHR 0x22] @ name @ [CHR 0x22] @
     '' already exists and is set to push to '' @ [CHR 0x27] @ url @ [CHR 0x27] @
     ''.'' @ [CHR 0x5C] @ ''n''"

subsection \<open>The function, by its line ranges\<close>

text \<open>
  Lines 77-95: the check of the git directory, then the name of the repository: the
  sanitised name of the working directory when there is no parameter, the first
  parameter when it matches \<open>^[^-]\<close>.
\<close>

definition create_name :: "env \<Rightarrow> Args \<Rightarrow> string run" where
  "create_name env args =
     (case git_Dir env of
        Inl _ \<Rightarrow> ([Git_Dir], Inl not_in_repository)
      | Inr _ \<Rightarrow>
          (case Params args of
             [] \<Rightarrow>
               (case git_WorkdirName env of
                  Inl e \<Rightarrow> ([Git_Dir, Git_WorkdirName], Inl e)
                | Inr dirName \<Rightarrow>
                    ([Git_Dir, Git_WorkdirName], Inr (SanitizeProjectName env dirName)))
           | firstParam # _ \<Rightarrow>
               (if \<not> MatchString firstParam
                then ([Git_Dir], Inl (invalid_argument firstParam))
                else ([Git_Dir], Inr firstParam))))"

text \<open>
  Lines 97-101: the default host of the current configuration. \<open>github.FormatError\<close>
  wraps the error that \<open>utils.Check\<close> then stops with.
\<close>

definition create_host :: "env \<Rightarrow> Host run" where
  "create_host env =
     (case DefaultHost env of
        Inl e \<Rightarrow> ([Config_DefaultHost], Inl (FormatError env ''creating repository'' e))
      | Inr host \<Rightarrow> ([Config_DefaultHost], Inr host))"

text \<open>
  Lines 103-108: the owner and the name handed to \<open>github.NewProject\<close>.
\<close>

definition create_owner_name :: "string \<Rightarrow> string \<Rightarrow> string \<times> string" where
  "create_owner_name user newRepoName =
     (if Contains newRepoName
      then (let split = SplitN newRepoName in (split ! 0, split ! 1))
      else (user, newRepoName))"

text \<open>Lines 77-110: the project asked for.\<close>

definition create_project :: "env \<Rightarrow> Args \<Rightarrow> Project run" where
  "create_project env args =
     and_then (create_name env args) (\<lambda>newRepoName.
     and_then (create_host env) (\<lambda>host.
       (case create_owner_name (Host_User host) newRepoName of
          (owner, newRepoName) \<Rightarrow>
            ([], Inr (NewProject env owner newRepoName (Host_Host host))))))"

text \<open>
  Lines 113-129: the lookup. The value is the pair of the local variables
  \<open>project\<close> and \<open>repo\<close> after line 129, \<open>None\<close> for \<open>nil\<close>.
\<close>

definition create_lookup :: "env \<Rightarrow> flags \<Rightarrow> Project \<Rightarrow> (Project \<times> Repository option) run" where
  "create_lookup env fl project =
     (case gh_Repository env (Host project) project of
        Inr repo \<Rightarrow>
          (let foundProject = NewProject env (FullName repo) '''' (Host project) in
           if SameAs env foundProject project
           then
             (if \<not> Private repo \<and> flagCreatePrivate fl
              then ([Gh_Repository (Host project) project], Inl (already_public (FullName repo)))
              else ([Gh_Repository (Host project) project, Ui_Errorln existing_detected],
                    Inr (foundProject, Some repo)))
           else ([Gh_Repository (Host project) project], Inr (project, None)))
      | Inl _ \<Rightarrow> ([Gh_Repository (Host project) project], Inr (project, None)))"

text \<open>Lines 131-137: the creation, when \<open>repo\<close> is \<open>nil\<close>.\<close>

definition create_missing :: "env \<Rightarrow> Args \<Rightarrow> flags \<Rightarrow> Project \<times> Repository option \<Rightarrow> Project run" where
  "create_missing env args fl pr =
     (case pr of
        (project, Some _) \<Rightarrow> ([], Inr project)
      | (project, None) \<Rightarrow>
          (if \<not> Noop args
           then
             (case gh_CreateRepository env (Host project) project
                     (flagCreateDescription fl) (flagCreateHomepage fl) (flagCreatePrivate fl) of
                Inl e \<Rightarrow>
                  ([Gh_CreateRepository (Host project) project
                      (flagCreateDescription fl) (flagCreateHomepage fl) (flagCreatePrivate fl)],
                   Inl e)
              | Inr repo \<Rightarrow>
                  ([Gh_CreateRepository (Host project) project
                      (flagCreateDescription fl) (flagCreateHomepage fl) (flagCreatePrivate fl)],
                   Inr (NewProject env (FullName repo) '''' (Host project))))
           else ([], Inr project)))"

text \<open>Lines 113-137 together.\<close>

definition create_reconcile :: "env \<Rightarrow> Args \<Rightarrow> flags \<Rightarrow> Project \<Rightarrow> Project run" where
  "create_reconcile env args fl project =
     and_then (create_lookup env fl project) (create_missing env args fl)"

text \<open>Lines 139-151: the local repository and its remote \<open>origin\<close>.\<close>

definition originName :: string where
  "originName = ''origin''"

definition create_bind :: "env \<Rightarrow> Project \<Rightarrow> unit run" where
  "create_bind env project =
     (case LocalRepo env of
        Inl e \<Rightarrow> ([Github_LocalRepo], Inl e)
      | Inr localRepo \<Rightarrow>
          (case RemoteByName localRepo originName of
             Inr originRemote \<Rightarrow>
               (if (case Remote_Project originRemote of
                      Inl _ \<Rightarrow> True
                    | Inr originProject \<Rightarrow> \<not> SameAs env originProject project)
                then ([Github_LocalRepo, Repo_RemoteByName originName,
                       Ui_Errorf (remote_exists (Remote_Name originRemote) (PushURL originRemote))],
                      Inr ())
                else ([Github_LocalRepo, Repo_RemoteByName originName], Inr ()))
           | Inl _ \<Rightarrow>
               (let url = GitURL env project '''' '''' True in
                ([Github_LocalRepo, Repo_RemoteByName originName,
                  Args_Before [''git'', ''remote'', ''add'', ''-f'', originName, url]],
                 Inr ()))))"

text \<open>Lines 153-155.\<close>

definition create_print :: "env \<Rightarrow> flags \<Rightarrow> Project \<Rightarrow> (Project \<times> string) run" where
  "create_print env fl project =
     (let webUrl = WebURL env project '''' '''' '''' in
      ([Args_NoForward, PrintBrowseOrCopy webUrl (flagCreateBrowse fl) (flagCreateCopy fl)],
       Inr (project, webUrl)))"

text \<open>Lines 139-155 together.\<close>

definition create_finish :: "env \<Rightarrow> flags \<Rightarrow> Project \<Rightarrow> (Project \<times> string) run" where
  "create_finish env fl project =
     and_then (create_bind env project) (\<lambda>_. create_print env fl project)"

text \<open>The whole function, lines 76-156.\<close>

definition create :: "env \<Rightarrow> Args \<Rightarrow> flags \<Rightarrow> (Project \<times> string) run" where
  "create env args fl =
     and_then (create_project env args) (\<lambda>project.
     and_then (create_reconcile env args fl project) (\<lambda>project.
       create_finish env fl project))"

subsection \<open>Reading a trace\<close>

text \<open>The calls that create a repository on the host, and the commands queued for git.\<close>

fun is_create_call :: "event \<Rightarrow> bool" where
  "is_create_call (Gh_CreateRepository _ _ _ _ _) = True"
| "is_create_call _ = False"

fun is_queued_command :: "event \<Rightarrow> bool" where
  "is_queued_command (Args_Before _) = True"
| "is_queued_command _ = False"

subsection \<open>Sample environments\<close>

text \<open>
  Concrete collaborators, for the closed instances of the theorems below. Every theorem
  is proved for every environment; these values only show each one at work.
\<close>

definition to_lower :: "char \<Rightarrow> char" where
  "to_lower c =
     (case map_of (zip ''ABCDEFGHIJKLMNOPQRSTUVWXYZ'' ''abcdefghijklmnopqrstuvwxyz'') c of
        None \<Rightarrow> c
      | Some d \<Rightarrow> d)"

text \<open>
  Modelled from the spec: \<open>github.NewProject\<close> is defined outside create.go. By section
  4.3 of the specification, a full name given without a name part is parsed into owner and
  name; otherwise the project holds the owner, name and host it is given.
\<close>

definition sample_NewProject :: "string \<Rightarrow> string \<Rightarrow> string \<Rightarrow> Project" where
  "sample_NewProject owner name host =
     (if name = [] \<and> Contains owner
      then \<lparr>Owner = SplitN owner ! 0, Name = SplitN owner ! 1, Host = host\<rparr>
      else \<lparr>Owner = owner, Name = name, Host = host\<rparr>)"

text \<open>
  Modelled from the spec: \<open>Project.SameAs\<close> is defined outside create.go. By section 3
  of the specification, two projects are the same when owner and name agree up to letter
  case and the hosts are equal.
\<close>

definition sample_SameAs :: "Project \<Rightarrow> Project \<Rightarrow> bool" where
  "sample_SameAs p q =
     (map to_lower (Owner p) = map to_lower (Owner q) \<and>
      map to_lower (Name p) = map to_lower (Name q) \<and> Host p = Host q)"

text \<open>
  Inside a working copy \<open>widgets\<close> with no remote, account \<open>me\<close> on github.com, no
  repository on the host yet.
\<close>

definition sample_env :: env where
  "sample_env =
     \<lparr>git_Dir = Inr ''.git'',
      git_WorkdirName = Inr ''widgets'',
      SanitizeProjectName = (\<lambda>s. s),
      DefaultHost = Inr \<lparr>Host_User = ''me'', Host_Host = ''github.com''\<rparr>,
      FormatError = (\<lambda>action e. ''Error '' @ action @ '': '' @ e),
      NewProject = sample_NewProject,
      SameAs = sample_SameAs,
      gh_Repository = (\<lambda>h p. Inl ''Not Found''),
      gh_CreateRepository =
        (\<lambda>h p d hp priv. Inr \<lparr>FullName = Owner p @ ''/'' @ Name p, Private = priv\<rparr>),
      LocalRepo = Inr \<lparr>RemoteByName = (\<lambda>n. Inl ''no such remote'')\<rparr>,
      GitURL = (\<lambda>p _ _ _. ''git@'' @ Host p @ '':'' @ Owner p @ ''/'' @ Name p @ ''.git''),
      WebURL = (\<lambda>p _ _ _. ''https://'' @ Host p @ ''/'' @ Owner p @ ''/'' @ Name p)\<rparr>"

definition sample_flags :: flags where
  "sample_flags =
     \<lparr>flagCreatePrivate = False, flagCreateBrowse = False, flagCreateCopy = False,
      flagCreateDescription = '''', flagCreateHomepage = ''''\<rparr>"

definition private_flags :: flags where
  "private_flags = sample_flags\<lparr>flagCreatePrivate := True\<rparr>"

definition sample_args :: Args where
  "sample_args = \<lparr>Params = [''myorg/widgets''], Noop = False\<rparr>"

definition dry_args :: Args where
  "dry_args = sample_args\<lparr>Noop := True\<rparr>"

definition dash_args :: Args where
  "dash_args = \<lparr>Params = [''-x''], Noop = False\<rparr>"

definition sample_project :: Project where
  "sample_project = \<lparr>Owner = ''myorg'', Name = ''widgets'', Host = ''github.com''\<rparr>"

text \<open>The host already has the public repository \<open>MyOrg/Widgets\<close>.\<close>

definition existing_env :: env where
  "existing_env =
     sample_env\<lparr>gh_Repository :=
       (\<lambda>h p. Inr \<lparr>FullName = ''MyOrg/Widgets'', Private = False\<rparr>)\<rparr>"

text \<open>Outside any git working copy.\<close>

definition outside_env :: env where
  "outside_env = sample_env\<lparr>git_Dir := Inl ''fatal: not a git repository''\<rparr>"

text \<open>Local repositories: \<open>origin\<close> set to another project, set to this one, not set.\<close>

definition unrelated_remote :: Remote where
  "unrelated_remote =
     \<lparr>Remote_Name = ''origin'', PushURL = ''git@github.com:other/unrelated.git'',
      Remote_Project = Inr \<lparr>Owner = ''other'', Name = ''unrelated'', Host = ''github.com''\<rparr>\<rparr>"

definition conflict_repo :: GitHubRepo where
  "conflict_repo = \<lparr>RemoteByName = (\<lambda>n. Inr unrelated_remote)\<rparr>"

definition conflict_env :: env where
  "conflict_env = sample_env\<lparr>LocalRepo := Inr conflict_repo\<rparr>"

definition matching_remote :: Remote where
  "matching_remote =
     \<lparr>Remote_Name = ''origin'', PushURL = ''git@github.com:MyOrg/Widgets.git'',
      Remote_Project = Inr \<lparr>Owner = ''MyOrg'', Name = ''Widgets'', Host = ''github.com''\<rparr>\<rparr>"

definition matching_repo :: GitHubRepo where
  "matching_repo = \<lparr>RemoteByName = (\<lambda>n. Inr matching_remote)\<rparr>"

definition matching_env :: env where
  "matching_env = sample_env\<lparr>LocalRepo := Inr matching_repo\<rparr>"

definition bare_repo :: GitHubRepo where
  "bare_repo = \<lparr>RemoteByName = (\<lambda>n. Inl ''no such remote'')\<rparr>"

lemmas sample_values =
  sample_env_def sample_flags_def private_flags_def sample_args_def dry_args_def dash_args_def
  sample_project_def existing_env_def outside_env_def unrelated_remote_def conflict_repo_def
  conflict_env_def matching_remote_def matching_repo_def matching_env_def bare_repo_def
  sample_NewProject_def sample_SameAs_def to_lower_def

lemmas create_parts =
  create_project_def create_name_def create_host_def create_owner_name_def
  create_reconcile_def create_lookup_def create_missing_def create_finish_def create_bind_def
  create_print_def and_then_def MatchString_def Contains_def SplitN_def originName_def
  existing_detected_def Let_def

section \<open>Sequencing and traces\<close>

lemma and_then_Inl: "and_then (es, Inl e) f = (es, Inl e)"
  by (simp add: and_then_def)

lemma and_then_Inr: "and_then (es, Inr x) f = (es @ fst (f x), snd (f x))"
  by (simp add: and_then_def split: prod.splits)

lemma fst_and_then:
  "fst (and_then m f) =
     (case snd m of Inl _ \<Rightarrow> fst m | Inr x \<Rightarrow> fst m @ fst (f x))"
  by (cases m) (simp add: and_then_def split: sum.splits prod.splits)

text \<open>Lines 77-110 neither create a repository nor queue a command.\<close>

lemma create_name_quiet:
  "filter is_create_call (fst (create_name env args)) = [] \<and>
   filter is_queued_command (fst (create_name env args)) = []"
  by (simp add: create_name_def split: sum.splits list.splits)

lemma create_host_quiet:
  "filter is_create_call (fst (create_host env)) = [] \<and>
   filter is_queued_command (fst (create_host env)) = []"
  by (simp add: create_host_def split: sum.splits)

lemma create_project_quiet:
  "filter is_create_call (fst (create_project env args)) = [] \<and>
   filter is_queued_command (fst (create_project env args)) = []"
  by (simp add: create_project_def fst_and_then create_name_quiet create_host_quiet
      split: sum.splits prod.splits)

text \<open>Lines 139-155 do not create a repository.\<close>

lemma create_bind_no_create: "filter is_create_call (fst (create_bind env project)) = []"
  by (simp add: create_bind_def Let_def split: sum.splits)

lemma create_finish_no_create: "filter is_create_call (fst (create_finish env fl project)) = []"
  by (simp add: create_finish_def fst_and_then create_bind_no_create create_print_def Let_def
      split: sum.splits)

text \<open>Once lines 77-110 have given the project, the rest of the run starts from it.\<close>

lemma create_from_project:
  assumes "create_project env args = (es0, Inr project)"
  shows "create env args fl =
           (es0 @ fst (and_then (create_reconcile env args fl project) (create_finish env fl)),
            snd (and_then (create_reconcile env args fl project) (create_finish env fl)))"
  using assms by (simp add: create_def and_then_Inr)

section \<open>The lookup (lines 113-129)\<close>

lemma create_lookup_reuse:
  assumes "gh_Repository env (Host project) project = Inr repo"
    and "SameAs env (NewProject env (FullName repo) '''' (Host project)) project"
    and "\<not> (\<not> Private repo \<and> flagCreatePrivate fl)"
  shows "create_lookup env fl project =
           ([Gh_Repository (Host project) project, Ui_Errorln existing_detected],
            Inr (NewProject env (FullName repo) '''' (Host project), Some repo))"
  using assms by (auto simp add: create_lookup_def Let_def)

text \<open>
  No usable record: the lookup failed, or it answered a record that is not the project
  asked for. Both leave \<open>project\<close> as it was and \<open>repo\<close> \<open>nil\<close>.
\<close>

lemma create_lookup_absent:
  assumes "case gh_Repository env (Host project) project of
             Inl _ \<Rightarrow> True
           | Inr repo \<Rightarrow> \<not> SameAs env (NewProject env (FullName repo) '''' (Host project)) project"
  shows "create_lookup env fl project =
           ([Gh_Repository (Host project) project], Inr (project, None))"
  using assms
  by (cases "gh_Repository env (Host project) project") (simp_all add: create_lookup_def Let_def)

lemma create_reconcile_absent:
  assumes "create_lookup env fl project =
           ([Gh_Repository (Host project) project], Inr (project, None))"
  shows "create_reconcile env args fl project =
           (Gh_Repository (Host project) project # fst (create_missing env args fl (project, None)),
            snd (create_missing env args fl (project, None)))"
  by (simp add: create_reconcile_def assms and_then_Inr)

text \<open>
  \<^bold>\<open>Claim C1.\<close> When the lookup answers a record whose project, parsed from its full
  name, is the same as the project asked for, and it is not the case that the record is
  public while a private repository was asked for, the run takes the reuse branch: it
  writes the notice ``Existing repository detected'' and goes on (the notice is not
  fatal), \<open>project\<close> becomes the project parsed from the record's full name, so that
  everything after line 137 is computed from it, and no call creates a repository. The
  function has no variable \<open>created\<close>; that nothing was created is read off the
  trace.
\<close>

theorem create_reuses_existing:
  assumes "create_project env args = (es0, Inr project)"
    and "gh_Repository env (Host project) project = Inr repo"
    and "SameAs env (NewProject env (FullName repo) '''' (Host project)) project"
    and "\<not> (\<not> Private repo \<and> flagCreatePrivate fl)"
  shows "create_reconcile env args fl project =
           ([Gh_Repository (Host project) project, Ui_Errorln ''Existing repository detected''],
            Inr (NewProject env (FullName repo) '''' (Host project))) \<and>
         create env args fl =
           (es0 @ [Gh_Repository (Host project) project, Ui_Errorln ''Existing repository detected'']
              @ fst (create_finish env fl (NewProject env (FullName repo) '''' (Host project))),
            snd (create_finish env fl (NewProject env (FullName repo) '''' (Host project)))) \<and>
         filter is_create_call (fst (create env args fl)) = []"
proof -
  let ?found = "NewProject env (FullName repo) '''' (Host project)"
  have look: "create_lookup env fl project =
      ([Gh_Repository (Host project) project, Ui_Errorln existing_detected], Inr (?found, Some repo))"
    using assms(2-4) by (rule create_lookup_reuse)
  have rec: "create_reconcile env args fl project =
      ([Gh_Repository (Host project) project, Ui_Errorln existing_detected], Inr ?found)"
    by (simp add: create_reconcile_def look and_then_Inr create_missing_def)
  have whole: "create env args fl =
      (es0 @ [Gh_Repository (Host project) project, Ui_Errorln existing_detected]
         @ fst (create_finish env fl ?found),
       snd (create_finish env fl ?found))"
    by (simp add: create_from_project [OF assms(1)] rec and_then_Inr)
  have "filter is_create_call es0 = []"
    using create_project_quiet [of env args] assms(1) by simp
  then have quiet: "filter is_create_call (fst (create env args fl)) = []"
    by (simp add: whole create_finish_no_create)
  from rec whole quiet show ?thesis
    by (simp add: existing_detected_def)
qed

text \<open>
  The instance: \<open>create myorg/widgets\<close> where the host has \<open>MyOrg/Widgets\<close>. The
  remote and the URL carry the host's spelling.
\<close>

theorem create_reuses_existing_witness:
  "create_project existing_env sample_args = ([Git_Dir, Config_DefaultHost], Inr sample_project) \<and>
   gh_Repository existing_env (Host sample_project) sample_project =
     Inr \<lparr>FullName = ''MyOrg/Widgets'', Private = False\<rparr> \<and>
   SameAs existing_env (NewProject existing_env ''MyOrg/Widgets'' '''' ''github.com'')
     sample_project \<and>
   \<not> flagCreatePrivate sample_flags \<and>
   create existing_env sample_args sample_flags =
     ([Git_Dir, Config_DefaultHost, Gh_Repository ''github.com'' sample_project,
       Ui_Errorln ''Existing repository detected'', Github_LocalRepo,
       Repo_RemoteByName ''origin'',
       Args_Before [''git'', ''remote'', ''add'', ''-f'', ''origin'',
                    ''git@github.com:MyOrg/Widgets.git''],
       Args_NoForward, PrintBrowseOrCopy ''https://github.com/MyOrg/Widgets'' False False],
      Inr (\<lparr>Owner = ''MyOrg'', Name = ''Widgets'', Host = ''github.com''\<rparr>,
           ''https://github.com/MyOrg/Widgets'')) \<and>
   filter is_create_call (fst (create existing_env sample_args sample_flags)) = []"
proof -
  have h1: "create_project existing_env sample_args =
      ([Git_Dir, Config_DefaultHost], Inr sample_project)"
    by (simp add: sample_values create_parts)
  have h2: "gh_Repository existing_env (Host sample_project) sample_project =
      Inr \<lparr>FullName = ''MyOrg/Widgets'', Private = False\<rparr>"
    by (simp add: sample_values)
  have h3: "SameAs existing_env
      (NewProject existing_env (FullName \<lparr>FullName = ''MyOrg/Widgets'', Private = False\<rparr>) ''''
         (Host sample_project)) sample_project"
    by (simp add: sample_values Contains_def SplitN_def)
  have h4: "\<not> (\<not> Private \<lparr>FullName = ''MyOrg/Widgets'', Private = False\<rparr> \<and>
      flagCreatePrivate sample_flags)"
    by (simp add: sample_values)
  have fin: "create_finish existing_env sample_flags
        \<lparr>Owner = ''MyOrg'', Name = ''Widgets'', Host = ''github.com''\<rparr> =
      ([Github_LocalRepo, Repo_RemoteByName ''origin'',
        Args_Before [''git'', ''remote'', ''add'', ''-f'', ''origin'',
                     ''git@github.com:MyOrg/Widgets.git''],
        Args_NoForward, PrintBrowseOrCopy ''https://github.com/MyOrg/Widgets'' False False],
       Inr (\<lparr>Owner = ''MyOrg'', Name = ''Widgets'', Host = ''github.com''\<rparr>,
            ''https://github.com/MyOrg/Widgets''))"
    by (simp add: sample_values create_parts)
  have found: "NewProject existing_env ''MyOrg/Widgets'' '''' ''github.com'' =
      \<lparr>Owner = ''MyOrg'', Name = ''Widgets'', Host = ''github.com''\<rparr>"
    by (simp add: sample_values Contains_def SplitN_def)
  have host: "Host sample_project = ''github.com''"
    by (simp add: sample_values)
  from create_reuses_existing [OF h1 h2 h3 h4] h1 h2 h3 h4 show ?thesis
    by (simp add: found host fin)
qed

text \<open>
  \<^bold>\<open>Claim C2.\<close> When the lookup answers a record that is the same project as the one
  asked for, the record is not private and a private repository was asked for, the run
  stops at line 119 with the error ``Repository '...' already exists and is public'' (the
  specification's ExistingRepositoryVisibilityConflict). The lookup is its last call: no
  repository is created and no command is queued.
\<close>

theorem create_visibility_conflict:
  assumes "create_project env args = (es0, Inr project)"
    and "gh_Repository env (Host project) project = Inr repo"
    and "SameAs env (NewProject env (FullName repo) '''' (Host project)) project"
    and "\<not> Private repo"
    and "flagCreatePrivate fl"
  shows "create env args fl =
           (es0 @ [Gh_Repository (Host project) project], Inl (already_public (FullName repo))) \<and>
         filter is_create_call (fst (create env args fl)) = [] \<and>
         filter is_queued_command (fst (create env args fl)) = []"
proof -
  have look: "create_lookup env fl project =
      ([Gh_Repository (Host project) project], Inl (already_public (FullName repo)))"
    using assms(2-5) by (simp add: create_lookup_def Let_def)
  have rec: "create_reconcile env args fl project =
      ([Gh_Repository (Host project) project], Inl (already_public (FullName repo)))"
    by (simp add: create_reconcile_def look and_then_Inl)
  have whole: "create env args fl =
      (es0 @ [Gh_Repository (Host project) project], Inl (already_public (FullName repo)))"
    by (simp add: create_from_project [OF assms(1)] rec and_then_Inl)
  have "filter is_create_call es0 = [] \<and> filter is_queued_command es0 = []"
    using create_project_quiet [of env args] assms(1) by simp
  with whole show ?thesis by simp
qed

text \<open>The instance: \<open>create -p myorg/widgets\<close> where the host has the public \<open>MyOrg/Widgets\<close>.\<close>

theorem create_visibility_conflict_witness:
  "create_project existing_env sample_args = ([Git_Dir, Config_DefaultHost], Inr sample_project) \<and>
   gh_Repository existing_env (Host sample_project) sample_project =
     Inr \<lparr>FullName = ''MyOrg/Widgets'', Private = False\<rparr> \<and>
   SameAs existing_env (NewProject existing_env ''MyOrg/Widgets'' '''' ''github.com'')
     sample_project \<and>
   flagCreatePrivate private_flags \<and>
   create existing_env sample_args private_flags =
     ([Git_Dir, Config_DefaultHost, Gh_Repository ''github.com'' sample_project],
      Inl ''Repository 'MyOrg/Widgets' already exists and is public'') \<and>
   filter is_create_call (fst (create existing_env sample_args private_flags)) = [] \<and>
   filter is_queued_command (fst (create existing_env sample_args private_flags)) = []"
proof -
  have h1: "create_project existing_env sample_args =
      ([Git_Dir, Config_DefaultHost], Inr sample_project)"
    by (simp add: sample_values create_parts)
  have h2: "gh_Repository existing_env (Host sample_project) sample_project =
      Inr \<lparr>FullName = ''MyOrg/Widgets'', Private = False\<rparr>"
    by (simp add: sample_values)
  have h3: "SameAs existing_env
      (NewProject existing_env (FullName \<lparr>FullName = ''MyOrg/Widgets'', Private = False\<rparr>) ''''
         (Host sample_project)) sample_project"
    by (simp add: sample_values Contains_def SplitN_def)
  have h4: "\<not> Private \<lparr>FullName = ''MyOrg/Widgets'', Private = False\<rparr>"
    by simp
  have h5: "flagCreatePrivate private_flags"
    by (simp add: sample_values)
  have host: "Host sample_project = ''github.com''"
    by (simp add: sample_values)
  from create_visibility_conflict [OF h1 h2 h3 h4 h5] h1 h2 h3 h5 show ?thesis
    by (simp add: host already_public_def)
qed

section \<open>The creation (lines 131-137)\<close>

text \<open>Which error the lookup failed with plays no part anywhere.\<close>

lemma create_lookup_failed:
  "create_lookup (env\<lparr>gh_Repository := \<lambda>h p. Inl e\<rparr>) fl project =
     ([Gh_Repository (Host project) project], Inr (project, None))"
  by (simp add: create_lookup_def)

lemma create_missing_lookup_irrelevant:
  "create_missing (env\<lparr>gh_Repository := g\<rparr>) args fl = create_missing env args fl"
  by (rule ext) (simp add: create_missing_def split: prod.splits option.splits sum.splits)

lemma create_name_lookup_irrelevant:
  "create_name (env\<lparr>gh_Repository := g\<rparr>) args = create_name env args"
  by (simp add: create_name_def split: sum.splits list.splits)

lemma create_host_lookup_irrelevant:
  "create_host (env\<lparr>gh_Repository := g\<rparr>) = create_host env"
  by (simp add: create_host_def split: sum.splits)

lemma create_project_lookup_irrelevant:
  "create_project (env\<lparr>gh_Repository := g\<rparr>) args = create_project env args"
  by (simp add: create_project_def create_name_lookup_irrelevant create_host_lookup_irrelevant)

lemma create_finish_lookup_irrelevant:
  "create_finish (env\<lparr>gh_Repository := g\<rparr>) fl = create_finish env fl"
  by (rule ext) (simp add: create_finish_def create_bind_def create_print_def split: sum.splits)

text \<open>
  \<^bold>\<open>Claim C3.\<close> Any error of the lookup is handled as the absence of a record: the
  answer is dropped (\<open>repo = nil\<close>, line 128), \<open>project\<close> stays the project asked
  for, and the run goes on to the creation step of lines 131-137. The error itself is never
  inspected: two runs that differ only in the error the lookup fails with are equal, trace
  and outcome.
\<close>

theorem create_lookup_error:
  assumes "gh_Repository env (Host project) project = Inl e"
  shows "create_lookup env fl project =
           ([Gh_Repository (Host project) project], Inr (project, None)) \<and>
         create_reconcile env args fl project =
           (Gh_Repository (Host project) project # fst (create_missing env args fl (project, None)),
            snd (create_missing env args fl (project, None))) \<and>
         create (env\<lparr>gh_Repository := \<lambda>h p. Inl e\<rparr>) args fl =
           create (env\<lparr>gh_Repository := \<lambda>h p. Inl e'\<rparr>) args fl"
proof -
  have look: "create_lookup env fl project =
      ([Gh_Repository (Host project) project], Inr (project, None))"
    by (rule create_lookup_absent) (simp add: assms)
  have same: "create_reconcile (env\<lparr>gh_Repository := \<lambda>h p. Inl e\<rparr>) args fl p =
      create_reconcile (env\<lparr>gh_Repository := \<lambda>h p. Inl e'\<rparr>) args fl p" for p
    by (simp add: create_reconcile_def create_lookup_failed create_missing_lookup_irrelevant)
  have "create (env\<lparr>gh_Repository := \<lambda>h p. Inl e\<rparr>) args fl =
      create (env\<lparr>gh_Repository := \<lambda>h p. Inl e'\<rparr>) args fl"
    unfolding create_def
    by (simp add: create_project_lookup_irrelevant create_finish_lookup_irrelevant same)
  with look create_reconcile_absent [OF look] show ?thesis by simp
qed

text \<open>
  The instance: the lookup fails with ``Not Found''; the repository is then created, as it
  is when the lookup fails with ``connection refused''.
\<close>

theorem create_lookup_error_witness:
  "gh_Repository sample_env (Host sample_project) sample_project = Inl ''Not Found'' \<and>
   create_lookup sample_env sample_flags sample_project =
     ([Gh_Repository ''github.com'' sample_project], Inr (sample_project, None)) \<and>
   create_reconcile sample_env sample_args sample_flags sample_project =
     ([Gh_Repository ''github.com'' sample_project,
       Gh_CreateRepository ''github.com'' sample_project '''' '''' False],
      Inr sample_project) \<and>
   create (sample_env\<lparr>gh_Repository := \<lambda>h p. Inl ''Not Found''\<rparr>) sample_args sample_flags =
     create (sample_env\<lparr>gh_Repository := \<lambda>h p. Inl ''connection refused''\<rparr>)
       sample_args sample_flags"
proof -
  have h1: "gh_Repository sample_env (Host sample_project) sample_project = Inl ''Not Found''"
    by (simp add: sample_values)
  have host: "Host sample_project = ''github.com''"
    by (simp add: sample_values)
  have missing: "create_missing sample_env sample_args sample_flags (sample_project, None) =
      ([Gh_CreateRepository ''github.com'' sample_project '''' '''' False], Inr sample_project)"
    by (simp add: sample_values create_parts)
  from create_lookup_error [OF h1, of sample_flags sample_args "''connection refused''"] h1
  show ?thesis
    by (simp add: host missing)
qed

text \<open>
  \<^bold>\<open>Claim C4.\<close> With \<open>args.Noop\<close> set (the dry run) and no usable record from the
  lookup (it failed, or its record is not the project asked for), the run calls
  \<open>CreateRepository\<close> not once and \<open>project\<close> stays the project asked for: everything
  after line 137 is computed from it.
\<close>

theorem create_dry_run:
  assumes "create_project env args = (es0, Inr project)"
    and "Noop args"
    and "case gh_Repository env (Host project) project of
           Inl _ \<Rightarrow> True
         | Inr repo \<Rightarrow> \<not> SameAs env (NewProject env (FullName repo) '''' (Host project)) project"
  shows "create_reconcile env args fl project =
           ([Gh_Repository (Host project) project], Inr project) \<and>
         create env args fl =
           (es0 @ [Gh_Repository (Host project) project] @ fst (create_finish env fl project),
            snd (create_finish env fl project)) \<and>
         filter is_create_call (fst (create env args fl)) = []"
proof -
  have look: "create_lookup env fl project =
      ([Gh_Repository (Host project) project], Inr (project, None))"
    using assms(3) by (rule create_lookup_absent)
  have rec: "create_reconcile env args fl project =
      ([Gh_Repository (Host project) project], Inr project)"
    using assms(2) by (simp add: create_reconcile_absent [OF look] create_missing_def)
  have whole: "create env args fl =
      (es0 @ [Gh_Repository (Host project) project] @ fst (create_finish env fl project),
       snd (create_finish env fl project))"
    by (simp add: create_from_project [OF assms(1)] rec and_then_Inr)
  have "filter is_create_call es0 = []"
    using create_project_quiet [of env args] assms(1) by simp
  then have "filter is_create_call (fst (create env args fl)) = []"
    by (simp add: whole create_finish_no_create)
  with rec whole show ?thesis by simp
qed

text \<open>The instance: a dry run of \<open>create myorg/widgets\<close> with no repository on the host.\<close>

theorem create_dry_run_witness:
  "create_project sample_env dry_args = ([Git_Dir, Config_DefaultHost], Inr sample_project) \<and>
   Noop dry_args \<and>
   gh_Repository sample_env (Host sample_project) sample_project = Inl ''Not Found'' \<and>
   create_reconcile sample_env dry_args sample_flags sample_project =
     ([Gh_Repository ''github.com'' sample_project], Inr sample_project) \<and>
   create sample_env dry_args sample_flags =
     ([Git_Dir, Config_DefaultHost, Gh_Repository ''github.com'' sample_project,
       Github_LocalRepo, Repo_RemoteByName ''origin'',
       Args_Before [''git'', ''remote'', ''add'', ''-f'', ''origin'',
                    ''git@github.com:myorg/widgets.git''],
       Args_NoForward, PrintBrowseOrCopy ''https://github.com/myorg/widgets'' False False],
      Inr (sample_project, ''https://github.com/myorg/widgets'')) \<and>
   filter is_create_call (fst (create sample_env dry_args sample_flags)) = []"
proof -
  have h1: "create_project sample_env dry_args =
      ([Git_Dir, Config_DefaultHost], Inr sample_project)"
    by (simp add: sample_values create_parts)
  have h2: "Noop dry_args"
    by (simp add: sample_values)
  have found: "gh_Repository sample_env (Host sample_project) sample_project = Inl ''Not Found''"
    by (simp add: sample_values)
  then have h3: "case gh_Repository sample_env (Host sample_project) sample_project of
      Inl _ \<Rightarrow> True
    | Inr repo \<Rightarrow>
        \<not> SameAs sample_env (NewProject sample_env (FullName repo) '''' (Host sample_project))
            sample_project"
    by simp
  have host: "Host sample_project = ''github.com''"
    by (simp add: sample_values)
  have fin: "create_finish sample_env sample_flags sample_project =
      ([Github_LocalRepo, Repo_RemoteByName ''origin'',
        Args_Before [''git'', ''remote'', ''add'', ''-f'', ''origin'',
                     ''git@github.com:myorg/widgets.git''],
        Args_NoForward, PrintBrowseOrCopy ''https://github.com/myorg/widgets'' False False],
       Inr (sample_project, ''https://github.com/myorg/widgets''))"
    by (simp add: sample_values create_parts)
  from create_dry_run [OF h1 h2 h3, of sample_flags] h1 h2 found show ?thesis
    by (simp add: host fin)
qed

section \<open>Owner and name (lines 103-110)\<close>

lemma takeWhile_first:
  "x \<notin> set a \<Longrightarrow> takeWhile (\<lambda>c. c \<noteq> x) (a @ x # b) = a"
  by (induction a) auto

lemma dropWhile_first:
  "x \<notin> set a \<Longrightarrow> dropWhile (\<lambda>c. c \<noteq> x) (a @ x # b) = x # b"
  by (induction a) auto

lemma count_list_zero_iff: "count_list xs x = 0 \<longleftrightarrow> x \<notin> set xs"
  by (induction xs) auto

lemma count_list_split:
  "x \<in> set xs \<Longrightarrow>
   count_list xs x = Suc (count_list (drop 1 (dropWhile (\<lambda>c. c \<noteq> x) xs)) x)"
  by (induction xs) auto

text \<open>
  Claim C5 says that the name of a constructed project never contains \<open>/\<close>, every
  \<open>/\<close> of the raw name being split away before the construction. Lines 104-107 split
  once, at the first \<open>/\<close> (\<open>SplitN\<close> with the limit 2), so the name handed to
  \<open>github.NewProject\<close> on line 110 keeps every later \<open>/\<close>: for
  \<open>org/sub/deep/repo\<close> it is \<open>sub/deep/repo\<close>.
\<close>

theorem create_owner_name_deep_path:
  "create_owner_name ''me'' ''org/sub/deep/repo'' = (''org'', ''sub/deep/repo'') \<and>
   CHR ''/'' \<in> set (snd (create_owner_name ''me'' ''org/sub/deep/repo'')) \<and>
   create_project sample_env \<lparr>Params = [''org/sub/deep/repo''], Noop = False\<rparr> =
     ([Git_Dir, Config_DefaultHost],
      Inr (NewProject sample_env ''org'' ''sub/deep/repo'' ''github.com''))"
  by (simp add: sample_env_def create_parts)

text \<open>
  \<^bold>\<open>Claim C5, as amended.\<close> The name that \<open>create\<close> hands to the construction of
  the project contains \<open>/\<close> exactly when the raw name contains two or more: the raw
  name is split once, at its first \<open>/\<close>, and what follows is not split again. A raw
  name with at most one \<open>/\<close> gives a name without \<open>/\<close>.
\<close>

theorem create_owner_name_slash:
  "CHR ''/'' \<in> set (snd (create_owner_name user raw)) \<longleftrightarrow> 2 \<le> count_list raw (CHR ''/'')"
proof (cases "CHR ''/'' \<in> set raw")
  case True
  have "CHR ''/'' \<in> set ys \<longleftrightarrow> 1 \<le> count_list ys (CHR ''/'')" for ys
    using count_list_zero_iff [of ys "CHR ''/''"] by arith
  with True count_list_split [OF True] show ?thesis
    by (simp add: create_owner_name_def Contains_def SplitN_def)
next
  case False
  then have "count_list raw (CHR ''/'') = 0"
    by (simp add: count_list_zero_iff)
  with False show ?thesis
    by (simp add: create_owner_name_def Contains_def)
qed

text \<open>The instances: one \<open>/\<close>, and two.\<close>

theorem create_owner_name_slash_witness:
  "CHR ''/'' \<notin> set (snd (create_owner_name ''me'' ''org/repo'')) \<and>
   count_list ''org/repo'' (CHR ''/'') = 1 \<and>
   CHR ''/'' \<in> set (snd (create_owner_name ''me'' ''org/sub/repo'')) \<and>
   count_list ''org/sub/repo'' (CHR ''/'') = 2"
  using create_owner_name_slash [of "''me''" "''org/repo''"]
    create_owner_name_slash [of "''me''" "''org/sub/repo''"]
  by simp

text \<open>
  \<^bold>\<open>Claim C6.\<close> A raw name that contains \<open>/\<close> is split at its first \<open>/\<close>
  only: what stands before it (\<open>a\<close>, without \<open>/\<close>) becomes the owner and
  everything after it (\<open>b\<close>, whatever it contains) the name. For a raw name without
  \<open>/\<close> the owner is \<open>host.User\<close>, the account of the default host of the
  configuration. These are the owner and the name that line 110 hands to
  \<open>github.NewProject\<close>, with \<open>host.Host\<close>.
\<close>

theorem create_project_split:
  assumes "create_name env args = (es, Inr raw)"
    and "DefaultHost env = Inr host"
  shows "(raw = a @ ''/'' @ b \<and> CHR ''/'' \<notin> set a \<longrightarrow>
            create_owner_name (Host_User host) raw = (a, b) \<and>
            create_project env args =
              (es @ [Config_DefaultHost], Inr (NewProject env a b (Host_Host host)))) \<and>
         (CHR ''/'' \<notin> set raw \<longrightarrow>
            create_owner_name (Host_User host) raw = (Host_User host, raw) \<and>
            create_project env args =
              (es @ [Config_DefaultHost],
               Inr (NewProject env (Host_User host) raw (Host_Host host))))"
proof -
  have proj: "create_project env args =
      (es @ [Config_DefaultHost],
       Inr (NewProject env (fst (create_owner_name (Host_User host) raw))
              (snd (create_owner_name (Host_User host) raw)) (Host_Host host)))"
    by (simp add: create_project_def assms create_host_def and_then_Inr split: prod.splits)
  have first: "create_owner_name u (a @ ''/'' @ b) = (a, b)" if "CHR ''/'' \<notin> set a" for u
    using that
    by (simp add: create_owner_name_def Contains_def SplitN_def takeWhile_first
        dropWhile_first)
  have none: "create_owner_name u raw = (u, raw)" if "CHR ''/'' \<notin> set raw" for u
    using that by (simp add: create_owner_name_def Contains_def)
  show ?thesis
    using first none by (auto simp add: proj)
qed

text \<open>
  The instances: \<open>create org/sub/repo\<close>, and \<open>create\<close> without a parameter in the
  working directory \<open>widgets\<close> of the account \<open>me\<close>.
\<close>

theorem create_project_split_witness:
  "create_name sample_env \<lparr>Params = [''org/sub/repo''], Noop = False\<rparr> =
     ([Git_Dir], Inr ''org/sub/repo'') \<and>
   DefaultHost sample_env = Inr \<lparr>Host_User = ''me'', Host_Host = ''github.com''\<rparr> \<and>
   ''org/sub/repo'' = ''org'' @ ''/'' @ ''sub/repo'' \<and> CHR ''/'' \<notin> set ''org'' \<and>
   create_owner_name ''me'' ''org/sub/repo'' = (''org'', ''sub/repo'') \<and>
   create_project sample_env \<lparr>Params = [''org/sub/repo''], Noop = False\<rparr> =
     ([Git_Dir, Config_DefaultHost], Inr (NewProject sample_env ''org'' ''sub/repo'' ''github.com'')) \<and>
   create_name sample_env \<lparr>Params = [], Noop = False\<rparr> =
     ([Git_Dir, Git_WorkdirName], Inr ''widgets'') \<and>
   CHR ''/'' \<notin> set ''widgets'' \<and>
   create_owner_name ''me'' ''widgets'' = (''me'', ''widgets'') \<and>
   create_project sample_env \<lparr>Params = [], Noop = False\<rparr> =
     ([Git_Dir, Git_WorkdirName, Config_DefaultHost],
      Inr (NewProject sample_env ''me'' ''widgets'' ''github.com''))"
proof -
  let ?host = "\<lparr>Host_User = ''me'', Host_Host = ''github.com''\<rparr>"
  have n1: "create_name sample_env \<lparr>Params = [''org/sub/repo''], Noop = False\<rparr> =
      ([Git_Dir], Inr ''org/sub/repo'')"
    by (simp add: sample_env_def create_name_def MatchString_def)
  have n2: "create_name sample_env \<lparr>Params = [], Noop = False\<rparr> =
      ([Git_Dir, Git_WorkdirName], Inr ''widgets'')"
    by (simp add: sample_env_def create_name_def)
  have h: "DefaultHost sample_env = Inr ?host"
    by (simp add: sample_env_def)
  have s1: "''org/sub/repo'' = ''org'' @ ''/'' @ ''sub/repo'' \<and> CHR ''/'' \<notin> set ''org''"
    by simp
  have s2: "CHR ''/'' \<notin> set ''widgets''"
    by simp
  have p1: "create_owner_name ''me'' ''org/sub/repo'' = (''org'', ''sub/repo'') \<and>
      create_project sample_env \<lparr>Params = [''org/sub/repo''], Noop = False\<rparr> =
        ([Git_Dir, Config_DefaultHost],
         Inr (NewProject sample_env ''org'' ''sub/repo'' ''github.com''))"
    using create_project_split [OF n1 h, of "''org''" "''sub/repo''"] by simp
  have p2: "create_owner_name ''me'' ''widgets'' = (''me'', ''widgets'') \<and>
      create_project sample_env \<lparr>Params = [], Noop = False\<rparr> =
        ([Git_Dir, Git_WorkdirName, Config_DefaultHost],
         Inr (NewProject sample_env ''me'' ''widgets'' ''github.com''))"
    using create_project_split [OF n2 h, of "''org''" "''sub/repo''"] by simp
  from p1 p2 n1 n2 h s1 s2 show ?thesis
    by blast
qed

section \<open>The remote \<open>origin\<close> and the URL (lines 139-155)\<close>

text \<open>
  \<^bold>\<open>Claim C7.\<close> Once the local repository is at hand, what lines 142-151 do with the
  final project depends on three cases only. A remote \<open>origin\<close> exists, and its
  project cannot be derived from its URL or is not the same as the final project: the
  warning of line 146 is written, the run goes on and no command is queued. The remote
  exists and its project is the same: nothing is written or queued. No remote \<open>origin\<close>
  is found: the command \<open>git remote add -f origin url\<close>, with the git URL of the final
  project, is queued with \<open>args.Before\<close>, not run.
\<close>

theorem create_bind_cases:
  assumes "LocalRepo env = Inr localRepo"
  shows "(RemoteByName localRepo ''origin'' = Inr remote \<and>
          (Remote_Project remote = Inl e \<or>
           Remote_Project remote = Inr originProject \<and> \<not> SameAs env originProject project) \<longrightarrow>
            create_bind env project =
              ([Github_LocalRepo, Repo_RemoteByName ''origin'',
                Ui_Errorf (remote_exists (Remote_Name remote) (PushURL remote))], Inr ())) \<and>
         (RemoteByName localRepo ''origin'' = Inr remote \<and>
          Remote_Project remote = Inr originProject \<and> SameAs env originProject project \<longrightarrow>
            create_bind env project = ([Github_LocalRepo, Repo_RemoteByName ''origin''], Inr ())) \<and>
         (RemoteByName localRepo ''origin'' = Inl e \<longrightarrow>
            create_bind env project =
              ([Github_LocalRepo, Repo_RemoteByName ''origin'',
                Args_Before [''git'', ''remote'', ''add'', ''-f'', ''origin'',
                             GitURL env project '''' '''' True]], Inr ()))"
  using assms by (auto simp add: create_bind_def originName_def Let_def)

text \<open>
  The instances, for the project \<open>myorg/widgets\<close>: \<open>origin\<close> set to
  \<open>other/unrelated\<close>, set to \<open>MyOrg/Widgets\<close>, and not set.
\<close>

theorem create_bind_cases_witness:
  "LocalRepo conflict_env = Inr conflict_repo \<and>
   RemoteByName conflict_repo ''origin'' = Inr unrelated_remote \<and>
   Remote_Project unrelated_remote =
     Inr \<lparr>Owner = ''other'', Name = ''unrelated'', Host = ''github.com''\<rparr> \<and>
   \<not> SameAs conflict_env \<lparr>Owner = ''other'', Name = ''unrelated'', Host = ''github.com''\<rparr>
       sample_project \<and>
   create_bind conflict_env sample_project =
     ([Github_LocalRepo, Repo_RemoteByName ''origin'',
       Ui_Errorf (remote_exists ''origin'' ''git@github.com:other/unrelated.git'')], Inr ()) \<and>
   LocalRepo matching_env = Inr matching_repo \<and>
   RemoteByName matching_repo ''origin'' = Inr matching_remote \<and>
   Remote_Project matching_remote =
     Inr \<lparr>Owner = ''MyOrg'', Name = ''Widgets'', Host = ''github.com''\<rparr> \<and>
   SameAs matching_env \<lparr>Owner = ''MyOrg'', Name = ''Widgets'', Host = ''github.com''\<rparr>
     sample_project \<and>
   create_bind matching_env sample_project =
     ([Github_LocalRepo, Repo_RemoteByName ''origin''], Inr ()) \<and>
   LocalRepo sample_env = Inr bare_repo \<and>
   RemoteByName bare_repo ''origin'' = Inl ''no such remote'' \<and>
   create_bind sample_env sample_project =
     ([Github_LocalRepo, Repo_RemoteByName ''origin'',
       Args_Before [''git'', ''remote'', ''add'', ''-f'', ''origin'',
                    ''git@github.com:myorg/widgets.git'']], Inr ())"
proof -
  let ?other = "\<lparr>Owner = ''other'', Name = ''unrelated'', Host = ''github.com''\<rparr>"
  let ?same = "\<lparr>Owner = ''MyOrg'', Name = ''Widgets'', Host = ''github.com''\<rparr>"
  have c1: "LocalRepo conflict_env = Inr conflict_repo"
    by (simp add: sample_values)
  have c2: "RemoteByName conflict_repo ''origin'' = Inr unrelated_remote"
    by (simp add: sample_values)
  have c3: "Remote_Project unrelated_remote = Inr ?other"
    by (simp add: sample_values)
  have c4: "\<not> SameAs conflict_env ?other sample_project"
    by (simp add: sample_values)
  have m1: "LocalRepo matching_env = Inr matching_repo"
    by (simp add: sample_values)
  have m2: "RemoteByName matching_repo ''origin'' = Inr matching_remote"
    by (simp add: sample_values)
  have m3: "Remote_Project matching_remote = Inr ?same"
    by (simp add: sample_values)
  have m4: "SameAs matching_env ?same sample_project"
    by (simp add: sample_values)
  have b1: "LocalRepo sample_env = Inr bare_repo"
    by (simp add: sample_values)
  have b2: "RemoteByName bare_repo ''origin'' = Inl ''no such remote''"
    by (simp add: sample_values)
  have names: "Remote_Name unrelated_remote = ''origin''"
    "PushURL unrelated_remote = ''git@github.com:other/unrelated.git''"
    by (simp_all add: sample_values)
  have url: "GitURL sample_env sample_project '''' '''' True = ''git@github.com:myorg/widgets.git''"
    by (simp add: sample_values)
  from create_bind_cases [OF c1, of unrelated_remote "''''" ?other sample_project]
    create_bind_cases [OF m1, of matching_remote "''''" ?same sample_project]
    create_bind_cases [OF b1, of unrelated_remote "''no such remote''" ?other sample_project]
    c1 c2 c3 c4 m1 m2 m3 m4 b1 b2
  show ?thesis
    by (simp add: names url)
qed

lemma create_bind_succeeds:
  assumes "LocalRepo env = Inr localRepo"
  shows "snd (create_bind env project) = Inr ()"
  using assms by (simp add: create_bind_def Let_def split: sum.splits)

text \<open>
  \<^bold>\<open>Claim C9.\<close> A run that passes every fatal check (lines 77-110 give the project asked
  for, lines 113-137 give the final project, the local repository is at hand) computes the
  web URL of the final project and hands it to \<open>printBrowseOrCopy\<close> as its last step,
  whatever lines 142-151 did before: their events only stand in front of it. So when the
  warning about \<open>origin\<close> is written, the URL is still that of the final project.
\<close>

theorem create_surfaces_web_url:
  assumes "create_project env args = (es0, Inr desired)"
    and "create_reconcile env args fl desired = (es1, Inr final)"
    and "LocalRepo env = Inr localRepo"
  shows "create env args fl =
           (es0 @ es1 @ fst (create_bind env final) @
              [Args_NoForward,
               PrintBrowseOrCopy (WebURL env final '''' '''' '''')
                 (flagCreateBrowse fl) (flagCreateCopy fl)],
            Inr (final, WebURL env final '''' '''' ''''))"
proof -
  have bind: "create_bind env final = (fst (create_bind env final), Inr ())"
    using create_bind_succeeds [OF assms(3), of final]
    by (cases "create_bind env final") simp
  have "create_finish env fl final =
      (fst (create_bind env final) @
         [Args_NoForward,
          PrintBrowseOrCopy (WebURL env final '''' '''' '''')
            (flagCreateBrowse fl) (flagCreateCopy fl)],
       Inr (final, WebURL env final '''' '''' ''''))"
    unfolding create_finish_def
    by (subst bind) (simp add: and_then_Inr create_print_def Let_def)
  then show ?thesis
    by (simp add: create_from_project [OF assms(1)] assms(2) and_then_Inr)
qed

text \<open>
  The instance: \<open>create myorg/widgets\<close> in a working copy whose \<open>origin\<close> is
  \<open>other/unrelated\<close>. The repository is created, the warning is written, nothing is
  queued, and the URL is that of \<open>myorg/widgets\<close>.
\<close>

theorem create_surfaces_web_url_witness:
  "create_project conflict_env sample_args = ([Git_Dir, Config_DefaultHost], Inr sample_project) \<and>
   create_reconcile conflict_env sample_args sample_flags sample_project =
     ([Gh_Repository ''github.com'' sample_project,
       Gh_CreateRepository ''github.com'' sample_project '''' '''' False], Inr sample_project) \<and>
   LocalRepo conflict_env = Inr conflict_repo \<and>
   create conflict_env sample_args sample_flags =
     ([Git_Dir, Config_DefaultHost, Gh_Repository ''github.com'' sample_project,
       Gh_CreateRepository ''github.com'' sample_project '''' '''' False,
       Github_LocalRepo, Repo_RemoteByName ''origin'',
       Ui_Errorf (remote_exists ''origin'' ''git@github.com:other/unrelated.git''),
       Args_NoForward, PrintBrowseOrCopy ''https://github.com/myorg/widgets'' False False],
      Inr (sample_project, ''https://github.com/myorg/widgets''))"
proof -
  have h1: "create_project conflict_env sample_args =
      ([Git_Dir, Config_DefaultHost], Inr sample_project)"
    by (simp add: sample_values create_parts)
  have h2: "create_reconcile conflict_env sample_args sample_flags sample_project =
      ([Gh_Repository ''github.com'' sample_project,
        Gh_CreateRepository ''github.com'' sample_project '''' '''' False], Inr sample_project)"
    by (simp add: sample_values create_parts)
  have h3: "LocalRepo conflict_env = Inr conflict_repo"
    by (simp add: sample_values)
  have bind: "create_bind conflict_env sample_project =
      ([Github_LocalRepo, Repo_RemoteByName ''origin'',
        Ui_Errorf (remote_exists ''origin'' ''git@github.com:other/unrelated.git'')], Inr ())"
    by (simp add: sample_values create_parts)
  have url: "WebURL conflict_env sample_project '''' '''' '''' = ''https://github.com/myorg/widgets''"
    by (simp add: sample_values)
  have browse: "flagCreateBrowse sample_flags = False" "flagCreateCopy sample_flags = False"
    by (simp_all add: sample_values)
  from create_surfaces_web_url [OF h1 h2 h3] h1 h2 h3 show ?thesis
    by (simp add: bind url browse)
qed

section \<open>The checks before the name is used (lines 77-95)\<close>

text \<open>
  Claim C8 says that an explicit argument starting with \<open>-\<close> always fails with the
  invalid-argument error, before any call to the network or to version control. The check
  of the git directory on lines 77-81 comes first: it is a call to version control, and
  outside a working copy it is its error that ends the run, whatever the argument is.
\<close>

theorem create_dash_argument_outside_repository:
  "create outside_env dash_args sample_flags =
     ([Git_Dir], Inl '''create' must be run from inside a git repository'') \<and>
   snd (create outside_env dash_args sample_flags) \<noteq> Inl (''invalid argument: -x'')"
  by (simp add: sample_values create_def create_parts not_in_repository_def)

text \<open>
  \<^bold>\<open>Claim C8, as amended.\<close> Inside a git working copy (\<open>git.Dir\<close> succeeds), an
  explicit first argument whose first character is \<open>-\<close> ends the run with the error
  ``invalid argument: '' followed by the argument. The check of the git directory is the
  only call made: no other call to version control, none to the configuration and none to
  the network.
\<close>

theorem create_dash_argument:
  assumes "git_Dir env = Inr dir"
    and "Params args = (CHR ''-'' # s) # rest"
  shows "create env args fl = ([Git_Dir], Inl (''invalid argument: '' @ CHR ''-'' # s))"
  using assms
  by (simp add: create_def create_project_def create_name_def and_then_Inl MatchString_def
      invalid_argument_def)

text \<open>The instance: \<open>create -x\<close> inside a working copy.\<close>

theorem create_dash_argument_witness:
  "git_Dir sample_env = Inr ''.git'' \<and> Params dash_args = (CHR ''-'' # ''x'') # [] \<and>
   create sample_env dash_args sample_flags = ([Git_Dir], Inl ''invalid argument: -x'')"
proof -
  have h1: "git_Dir sample_env = Inr ''.git''"
    by (simp add: sample_values)
  have h2: "Params dash_args = (CHR ''-'' # ''x'') # []"
    by (simp add: sample_values)
  from create_dash_argument [OF h1 h2, of sample_flags] h1 h2 show ?thesis
    by simp
qed

text \<open>
  \<^bold>\<open>Claim C10.\<close> Outside a git working copy (\<open>git.Dir\<close> fails, with whatever error)
  the run ends with the error ``'create' must be run from inside a git repository''. The
  check is its only call: the name is not resolved, the configuration is not read and the
  host is not asked.
\<close>

theorem create_outside_repository:
  assumes "git_Dir env = Inl e"
  shows "create env args fl =
           ([Git_Dir], Inl '''create' must be run from inside a git repository'')"
  using assms
  by (simp add: create_def create_project_def create_name_def and_then_Inl not_in_repository_def)

text \<open>The instance: \<open>create myorg/widgets\<close> outside a working copy.\<close>

theorem create_outside_repository_witness:
  "git_Dir outside_env = Inl ''fatal: not a git repository'' \<and>
   create outside_env sample_args sample_flags =
     ([Git_Dir], Inl '''create' must be run from inside a git repository'')"
proof -
  have h: "git_Dir outside_env = Inl ''fatal: not a git repository''"
    by (simp add: sample_values)
  from create_outside_repository [OF h, of sample_args sample_flags] h show ?thesis
    by simp
qed

end
